theory Spec2Isabelle
  imports Complex_Main "HOL-Library.Sublist"
begin

section \<open>Tables of marriage records\<close>

text \<open>
  Every analysis script reads a CSV file into a pandas DataFrame and works on it row by
  row. A DataFrame is modelled as the list of its rows, a row as a record of its columns.
  A missing cell (NaN, NaT) is \<open>None\<close>. The type parameter \<open>'d\<close> is the representation of a
  date cell: \<open>string\<close> as read from the file, \<open>timestamp\<close> after \<open>pd.to_datetime\<close>.
  The record holds the columns of all the CSV files; a script reads only the columns of its
  own file.
\<close>

type_synonym timestamp = int \<comment> \<open>nanoseconds since the epoch, as pandas counts them\<close>

record 'd row =
  Celebrity :: "string option"
  Start_Date :: "'d option"
  End_Date :: "'d option"
  End_Cause :: "string option"
  Celebrity_Birth :: "'d option"
  Spouse_Birth :: "'d option"
  Celebrity_Fame_Score :: "real option"
  Spouse_Fame_Score :: "real option"
  Career_Start_Year :: "'d option"
  Children_Count :: "int option"
  Awards_Count :: "int option"

section \<open>Strings\<close>

text \<open>
  Cause texts are ASCII strings. \<open>str.lower()\<close> maps the letters A to Z to a to z and leaves
  every other character alone; \<open>str(x)\<close> of a missing cell (a float NaN) is the text \<open>nan\<close>;
  \<open>needle in hay\<close> holds when \<open>needle\<close> is a contiguous part of \<open>hay\<close>.
\<close>

definition lower_char :: "char \<Rightarrow> char" where
  "lower_char c =
     (case map_of (zip ''ABCDEFGHIJKLMNOPQRSTUVWXYZ'' ''abcdefghijklmnopqrstuvwxyz'') c of
        None \<Rightarrow> c
      | Some d \<Rightarrow> d)"

definition lower :: "string \<Rightarrow> string" where
  "lower s = map lower_char s"

definition py_str :: "string option \<Rightarrow> string" where
  "py_str v = (case v of None \<Rightarrow> ''nan'' | Some s \<Rightarrow> s)"

fun py_in :: "string \<Rightarrow> string \<Rightarrow> bool" where
  "py_in needle [] = (needle = [])"
| "py_in needle (c # cs) = (prefix needle (c # cs) \<or> py_in needle cs)"

section \<open>Event classification\<close>

text \<open>
  \<open>get_event_status\<close> of analysis.py and step2_analysis.py (the two are the same function):
  \<^verbatim>\<open>
  def get_event_status(row):
      if pd.isnull(row['End_Date']): return 0
      cause = str(row['End_Cause']).lower()
      if 'death' in cause or 'widow' in cause: return 0
      return 1
  \<close>
\<close>

definition get_event_status :: "('d, 'm) row_scheme \<Rightarrow> int" where
  "get_event_status r =
     (if End_Date r = None then 0
      else let cause = lower (py_str (End_Cause r))
           in if py_in ''death'' cause \<or> py_in ''widow'' cause then 0 else 1)"

text \<open>
  \<open>get_status\<close> of step3_comparative_analysis.py, step5_psycho_economic_analysis.py and
  step7_culture_analysis.py (the three are the same function):
  \<^verbatim>\<open>
  def get_status(row):
      if pd.isnull(row['End_Date']): return 0
      if 'death' in str(row['End_Cause']).lower(): return 0
      return 1
  \<close>
\<close>

definition get_status :: "('d, 'm) row_scheme \<Rightarrow> int" where
  "get_status r =
     (if End_Date r = None then 0
      else if py_in ''death'' (lower (py_str (End_Cause r))) then 0
      else 1)"

text \<open>
  The classification as the specification words it: a cause text contains a keyword under
  case-insensitive substring match when some contiguous part of the text equals the keyword
  up to the case of its letters. The keywords are those of the code, \<open>death\<close> and \<open>widow\<close>.
\<close>

definition contains_ci :: "string \<Rightarrow> string \<Rightarrow> bool" where
  "contains_ci keyword s \<longleftrightarrow>
     (\<exists>pre mid post. s = pre @ mid @ post \<and> lower mid = lower keyword)"

definition classify_event :: "bool \<Rightarrow> string option \<Rightarrow> int" where
  "classify_event end_date_present cause_text =
     (if \<not> end_date_present then 0
      else if \<exists>s. cause_text = Some s \<and>
                (contains_ci ''death'' s \<or> contains_ci ''widow'' s) then 0
      else 1)"

section \<open>Reading dates and computing with missing values\<close>

text \<open>
  \<open>pd.to_datetime(col, errors='coerce')\<close> converts a whole column: pandas settles how the
  column is to be read (it infers a format from the first cell that is not missing) and then
  turns every text it can read that way into a timestamp and every other text into NaT; a
  missing cell stays missing. How pandas reads a text within a given column is a parameter
  \<open>reader\<close> of the model: \<open>reader col s\<close> is the timestamp of the text \<open>s\<close> as a cell of the
  column \<open>col\<close>, so what becomes of one cell may depend on the other cells of its column.
\<close>

type_synonym date_reader = "string option list \<Rightarrow> string \<Rightarrow> timestamp option"

definition to_datetime_cell :: "date_reader \<Rightarrow> string option list \<Rightarrow> string option \<Rightarrow> timestamp option" where
  "to_datetime_cell reader col v = (case v of None \<Rightarrow> None | Some s \<Rightarrow> reader col s)"

definition to_datetime :: "date_reader \<Rightarrow> string option list \<Rightarrow> timestamp option list" where
  "to_datetime reader col = map (to_datetime_cell reader col) col"

text \<open>
  analysis.py, step2_analysis.py and step3_comparative_analysis.py convert the columns
  \<open>Start_Date\<close>, \<open>End_Date\<close>, \<open>Celebrity_Birth\<close> and \<open>Spouse_Birth\<close> of
  celebrity_marriages_enriched.csv, which has no column \<open>Career_Start_Year\<close>:
  \<^verbatim>\<open>
  for col in date_cols:
      df[col] = pd.to_datetime(df[col], errors='coerce')
  \<close>
  Each row gets its cell of the converted column.
\<close>

definition read_enriched :: "date_reader \<Rightarrow> string row list \<Rightarrow> timestamp row list" where
  "read_enriched reader csv =
     map (\<lambda>r.
       \<lparr>Celebrity = Celebrity r,
        Start_Date = to_datetime_cell reader (map Start_Date csv) (Start_Date r),
        End_Date = to_datetime_cell reader (map End_Date csv) (End_Date r),
        End_Cause = End_Cause r,
        Celebrity_Birth = to_datetime_cell reader (map Celebrity_Birth csv) (Celebrity_Birth r),
        Spouse_Birth = to_datetime_cell reader (map Spouse_Birth csv) (Spouse_Birth r),
        Celebrity_Fame_Score = Celebrity_Fame_Score r,
        Spouse_Fame_Score = Spouse_Fame_Score r,
        Career_Start_Year = None,
        Children_Count = Children_Count r,
        Awards_Count = Awards_Count r\<rparr>) csv"

text \<open>
  data_check.py converts \<open>Start_Date\<close> and \<open>End_Date\<close> of celebrity_marriages_wikidata.csv,
  which has no birth dates.
\<close>

definition read_wikidata :: "date_reader \<Rightarrow> string row list \<Rightarrow> timestamp row list" where
  "read_wikidata reader csv =
     map (\<lambda>r.
       \<lparr>Celebrity = Celebrity r,
        Start_Date = to_datetime_cell reader (map Start_Date csv) (Start_Date r),
        End_Date = to_datetime_cell reader (map End_Date csv) (End_Date r),
        End_Cause = End_Cause r,
        Celebrity_Birth = None,
        Spouse_Birth = None,
        Celebrity_Fame_Score = Celebrity_Fame_Score r,
        Spouse_Fame_Score = Spouse_Fame_Score r,
        Career_Start_Year = None,
        Children_Count = Children_Count r,
        Awards_Count = Awards_Count r\<rparr>) csv"

text \<open>
  step5_psycho_economic_analysis.py converts \<open>Start_Date\<close>, \<open>End_Date\<close>, \<open>Celebrity_Birth\<close>
  and \<open>Career_Start_Year\<close> of celebrity_psycho_economics.csv, which has no spouse birth date.
\<close>

definition read_psycho :: "date_reader \<Rightarrow> string row list \<Rightarrow> timestamp row list" where
  "read_psycho reader csv =
     map (\<lambda>r.
       \<lparr>Celebrity = Celebrity r,
        Start_Date = to_datetime_cell reader (map Start_Date csv) (Start_Date r),
        End_Date = to_datetime_cell reader (map End_Date csv) (End_Date r),
        End_Cause = End_Cause r,
        Celebrity_Birth = to_datetime_cell reader (map Celebrity_Birth csv) (Celebrity_Birth r),
        Spouse_Birth = None,
        Celebrity_Fame_Score = Celebrity_Fame_Score r,
        Spouse_Fame_Score = Spouse_Fame_Score r,
        Career_Start_Year =
          to_datetime_cell reader (map Career_Start_Year csv) (Career_Start_Year r),
        Children_Count = Children_Count r,
        Awards_Count = Awards_Count r\<rparr>) csv"

text \<open>\<open>col.fillna(d)\<close> on one cell.\<close>

definition fillna :: "'a option \<Rightarrow> 'a \<Rightarrow> 'a option" where
  "fillna v d = (case v of None \<Rightarrow> Some d | Some x \<Rightarrow> Some x)"

text \<open>
  \<open>(a - b).dt.days\<close>: the whole days of a difference of timestamps, rounded down; missing
  when a side is missing.
\<close>

definition ns_per_day :: int where
  "ns_per_day = 86400000000000"

definition days_between :: "timestamp option \<Rightarrow> timestamp option \<Rightarrow> int option" where
  "days_between a b =
     (case a of
        None \<Rightarrow> None
      | Some x \<Rightarrow> (case b of None \<Rightarrow> None | Some y \<Rightarrow> Some ((x - y) div ns_per_day)))"

text \<open>\<open>days / 365.25\<close> on one cell.\<close>

definition in_years :: "int option \<Rightarrow> real option" where
  "in_years d = map_option (\<lambda>n. real_of_int n / 365.25) d"

text \<open>Comparisons of a cell with a number: every comparison with NaN is false.\<close>

definition nan_gt :: "'a::linorder option \<Rightarrow> 'a \<Rightarrow> bool" where
  "nan_gt v c = (case v of None \<Rightarrow> False | Some x \<Rightarrow> c < x)"

definition nan_lt :: "'a::linorder option \<Rightarrow> 'a \<Rightarrow> bool" where
  "nan_lt v c = (case v of None \<Rightarrow> False | Some x \<Rightarrow> x < c)"

definition nan_le :: "'a::linorder option \<Rightarrow> 'a \<Rightarrow> bool" where
  "nan_le v c = (case v of None \<Rightarrow> False | Some x \<Rightarrow> x \<le> c)"

text \<open>\<open>abs(a - b)\<close> on two cells.\<close>

definition abs_diff :: "real option \<Rightarrow> real option \<Rightarrow> real option" where
  "abs_diff a b =
     (case a of
        None \<Rightarrow> None
      | Some x \<Rightarrow> (case b of None \<Rightarrow> None | Some y \<Rightarrow> Some \<bar>x - y\<bar>))"

text \<open>
  \<open>pd.cut(x, bins, labels)\<close> on one value: the label of the first interval
  \<open>(bins[i], bins[i+1]]\<close> that holds the value, NaN when none does.
\<close>

fun pd_cut :: "'a::linorder list \<Rightarrow> string list \<Rightarrow> 'a \<Rightarrow> string option" where
  "pd_cut (lo # hi # bins) (l # labels) x =
     (if lo < x \<and> x \<le> hi then Some l else pd_cut (hi # bins) labels x)"
| "pd_cut bins labels x = None"

text \<open>Aggregations of a column, NaN cells skipped; NaN when nothing is left.\<close>

definition present :: "'a option list \<Rightarrow> 'a list" where
  "present vs = map the (filter (\<lambda>v. v \<noteq> None) vs)"

definition mean :: "real list \<Rightarrow> real option" where
  "mean xs = (if xs = [] then None else Some (sum_list xs / real (length xs)))"

definition median :: "real list \<Rightarrow> real option" where
  "median xs =
     (let s = sort xs; n = length s
      in if n = 0 then None
         else if odd n then Some (s ! (n div 2))
         else Some ((s ! (n div 2 - 1) + s ! (n div 2)) / 2))"

section \<open>Normalization in analysis.py and step2_analysis.py\<close>

text \<open>
  Both scripts run the same lines:
  \<^verbatim>\<open>
  df = df.dropna(subset=['Start_Date'])
  today = pd.to_datetime('today')
  df['Observed_End_Date'] = df['End_Date'].fillna(today)
  df['Duration_Days'] = (df['Observed_End_Date'] - df['Start_Date']).dt.days
  df['Duration_Years'] = df['Duration_Days'] / 365.25
  df = df[df['Duration_Days'] > 0]
  \<close>
  The current time \<open>today\<close> is a parameter.
\<close>

record drow = "timestamp row" +
  Observed_End_Date :: "timestamp option"
  Duration_Days :: "int option"
  Duration_Years :: "real option"

definition dropna_Start_Date :: "timestamp row list \<Rightarrow> timestamp row list" where
  "dropna_Start_Date df = filter (\<lambda>r. Start_Date r \<noteq> None) df"

definition add_durations :: "timestamp \<Rightarrow> timestamp row \<Rightarrow> drow" where
  "add_durations today r =
     (let observed = fillna (End_Date r) today;
          d = days_between observed (Start_Date r)
      in row.extend r (drow.fields observed d (in_years d)))"

definition normalize :: "date_reader \<Rightarrow> timestamp \<Rightarrow> string row list \<Rightarrow> drow list" where
  "normalize reader today csv =
     filter (\<lambda>r. nan_gt (Duration_Days r) 0)
       (map (add_durations today) (dropna_Start_Date (read_enriched reader csv)))"

section \<open>The preliminary report of data\_check.py\<close>

text \<open>
  data_check.py computes the same three columns, drops no row and filters none:
  \<^verbatim>\<open>
  df['Observed_End_Date'] = df['End_Date'].fillna(today)
  df['Duration_Days'] = (df['Observed_End_Date'] - df['Start_Date']).dt.days
  df['Duration_Years'] = df['Duration_Days'] / 365.25
  df['Status'] = np.where(df['End_Date'].notnull(), 'Ended', 'Ongoing')
  \<close>
  and reports \<open>len(df)\<close> and the median duration of the rows whose status is \<open>Ended\<close>.
\<close>

record krow = drow +
  Status :: string

definition add_Status :: "drow \<Rightarrow> krow" where
  "add_Status r = drow.extend r (krow.fields (if End_Date r \<noteq> None then ''Ended'' else ''Ongoing''))"

definition data_check :: "date_reader \<Rightarrow> timestamp \<Rightarrow> string row list \<Rightarrow> krow list" where
  "data_check reader today csv =
     map add_Status (map (add_durations today) (read_wikidata reader csv))"

definition total_records :: "krow list \<Rightarrow> nat" where
  "total_records df = length df"

definition avg_duration :: "krow list \<Rightarrow> real option" where
  "avg_duration df =
     median (present (map drow.Duration_Years (filter (\<lambda>r. Status r = ''Ended'') df)))"

section \<open>Features and statistics of analysis.py\<close>

text \<open>
  \<^verbatim>\<open>
  df['Event_Divorce'] = df.apply(get_event_status, axis=1)
  df['Status_Label'] = df['Event_Divorce'].map({1: 'Divorced', 0: 'Ongoing/Widowed'})
  df['Age_Gap'] = abs((df['Celebrity_Birth'] - df['Spouse_Birth']).dt.days / 365.25)
  df['Fame_Gap_Raw'] = abs(df['Celebrity_Fame_Score'] - df['Spouse_Fame_Score'])
  df['Spouse_Type'] = np.where(df['Spouse_Fame_Score'] > 20, 'Famous Spouse', 'Non-Famous Spouse')
  \<close>
\<close>

record arow = drow +
  Event_Divorce :: int
  Status_Label :: "string option"
  Age_Gap :: "real option"
  Fame_Gap_Raw :: "real option"
  Spouse_Type :: string

definition add_features :: "drow \<Rightarrow> arow" where
  "add_features r =
     (let ev = get_event_status r
      in drow.extend r
           (arow.fields ev
              (map_of [(1, ''Divorced''), (0, ''Ongoing/Widowed'')] ev)
              (map_option abs (in_years (days_between (Celebrity_Birth r) (Spouse_Birth r))))
              (abs_diff (Celebrity_Fame_Score r) (Spouse_Fame_Score r))
              (if nan_gt (Spouse_Fame_Score r) 20 then ''Famous Spouse''
               else ''Non-Famous Spouse'')))"

text \<open>
  \<^verbatim>\<open>
  df_clean = df.dropna(subset=['Age_Gap'])
  df_clean = df_clean[df_clean['Age_Gap'] < 60]
  bins = [0, 5, 10, 20, 100]
  labels = ['0-5 Years', '5-10 Years', '10-20 Years', '20+ Years']
  df_clean['Age_Gap_Bin'] = pd.cut(df_clean['Age_Gap'], bins=bins, labels=labels)
  \<close>
\<close>

record crow = arow +
  Age_Gap_Bin :: "string option"

definition bins :: "real list" where
  "bins = [0, 5, 10, 20, 100]"

definition labels :: "string list" where
  "labels = [''0-5 Years'', ''5-10 Years'', ''10-20 Years'', ''20+ Years'']"

definition add_Age_Gap_Bin :: "arow \<Rightarrow> crow" where
  "add_Age_Gap_Bin r =
     arow.extend r (crow.fields (Option.bind (arow.Age_Gap r) (pd_cut bins labels)))"

definition df_clean :: "arow list \<Rightarrow> crow list" where
  "df_clean df =
     map add_Age_Gap_Bin
       (filter (\<lambda>r. nan_lt (arow.Age_Gap r) 60) (filter (\<lambda>r. arow.Age_Gap r \<noteq> None) df))"

text \<open>
  Both tables of statistics are computed from \<open>df_clean\<close>:
  \<^verbatim>\<open>
  age_gap_stats = df_clean.groupby('Age_Gap_Bin', observed=False).agg(
      Total_Marriages=('Status_Label', 'count'),
      Divorce_Rate=('Event_Divorce', 'mean'),
      Median_Duration=('Duration_Years', 'median')).reset_index()
  fame_stats = df_clean.groupby('Spouse_Type').agg( ...the same three... ).reset_index()
  \<close>
  \<open>observed=False\<close> gives one line per label, also for a label without rows; the grouping
  by \<open>Spouse_Type\<close> gives one line per value that occurs, in the order of the values.
\<close>

record stats =
  Total_Marriages :: nat
  Divorce_Rate :: "real option"
  Median_Duration :: "real option"

definition agg :: "crow list \<Rightarrow> stats" where
  "agg g =
     \<lparr>Total_Marriages = length (present (map Status_Label g)),
      Divorce_Rate = mean (map (\<lambda>r. real_of_int (arow.Event_Divorce r)) g),
      Median_Duration = median (present (map drow.Duration_Years g))\<rparr>"

definition age_gap_stats :: "crow list \<Rightarrow> (string \<times> stats) list" where
  "age_gap_stats dfc = map (\<lambda>l. (l, agg (filter (\<lambda>r. Age_Gap_Bin r = Some l) dfc))) labels"

definition fame_stats :: "crow list \<Rightarrow> (string \<times> stats) list" where
  "fame_stats dfc =
     map (\<lambda>k. (k, agg (filter (\<lambda>r. Spouse_Type r = k) dfc)))
       (filter (\<lambda>k. k \<in> set (map Spouse_Type dfc)) [''Famous Spouse'', ''Non-Famous Spouse''])"

definition analysis :: "date_reader \<Rightarrow> timestamp \<Rightarrow> string row list \<Rightarrow> arow list" where
  "analysis reader today csv = map add_features (normalize reader today csv)"

section \<open>The training set of step2\_analysis.py\<close>

text \<open>
  \<^verbatim>\<open>
  df['Event_Divorce'] = df.apply(get_event_status, axis=1)
  df['Age_Gap'] = abs((df['Celebrity_Birth'] - df['Spouse_Birth']).dt.days / 365.25).fillna(0)
  df['Celebrity_Fame_Score'] = df['Celebrity_Fame_Score'].fillna(0)
  df['Spouse_Fame_Score'] = df['Spouse_Fame_Score'].fillna(0)
  df['Fame_Gap'] = abs(df['Celebrity_Fame_Score'] - df['Spouse_Fame_Score'])
  df['Is_Famous_Spouse'] = (df['Spouse_Fame_Score'] > 20).astype(int)
  df['Spouse_Type_Label'] = np.where(df['Is_Famous_Spouse'] == 1, 'Famous Spouse', 'Non-Famous')
  \<close>
\<close>

record srow = drow +
  Event_Divorce :: int
  Age_Gap :: "real option"
  Fame_Gap :: "real option"
  Is_Famous_Spouse :: int
  Spouse_Type_Label :: string

definition step2_features :: "drow \<Rightarrow> srow" where
  "step2_features r =
     (let ev = get_event_status r;
          gap = fillna (map_option abs (in_years (days_between (Celebrity_Birth r) (Spouse_Birth r)))) 0;
          r' = r\<lparr>Celebrity_Fame_Score := fillna (Celebrity_Fame_Score r) 0,
                 Spouse_Fame_Score := fillna (Spouse_Fame_Score r) 0\<rparr>;
          famous = (if nan_gt (Spouse_Fame_Score r') 20 then 1 else 0)
      in drow.extend r'
           (srow.fields ev gap
              (abs_diff (Celebrity_Fame_Score r') (Spouse_Fame_Score r'))
              famous
              (if famous = 1 then ''Famous Spouse'' else ''Non-Famous'')))"

definition step2 :: "date_reader \<Rightarrow> timestamp \<Rightarrow> string row list \<Rightarrow> srow list" where
  "step2 reader today csv = map step2_features (normalize reader today csv)"

text \<open>
  \<^verbatim>\<open>
  model_data = df[ (df['Event_Divorce']==1) | (df['Duration_Years'] > 5) ].copy()
  model_data['Target_Short_Marriage'] = (model_data['Duration_Years'] <= 5).astype(int)
  \<close>
\<close>

record mrow = srow +
  Target_Short_Marriage :: int

definition model_rows :: "srow list \<Rightarrow> srow list" where
  "model_rows df =
     filter (\<lambda>r. srow.Event_Divorce r = 1 \<or> nan_gt (drow.Duration_Years r) 5) df"

definition add_Target :: "srow \<Rightarrow> mrow" where
  "add_Target r =
     srow.extend r (mrow.fields (if nan_le (drow.Duration_Years r) 5 then 1 else 0))"

definition model_data :: "srow list \<Rightarrow> mrow list" where
  "model_data df = map add_Target (model_rows df)"

section \<open>The child-star table of step5\_psycho\_economic\_analysis.py\<close>

text \<open>
  \<^verbatim>\<open>
  df = df.dropna(subset=['Start_Date', 'Celebrity_Birth', 'Career_Start_Year'])
  today = pd.to_datetime('today')
  df['Observed_End_Date'] = df['End_Date'].fillna(today)
  df['Duration_Years'] = (df['Observed_End_Date'] - df['Start_Date']).dt.days / 365.25
  df = df[df['Duration_Years'] > 0]
  df['Event'] = df.apply(get_status, axis=1)
  df['Age_At_Debut'] = (df['Career_Start_Year'] - df['Celebrity_Birth']).dt.days / 365.25
  \<close>
\<close>

record prow = "timestamp row" +
  Observed_End_Date :: "timestamp option"
  Duration_Years :: "real option"
  Event :: int
  Age_At_Debut :: "real option"

definition step5_dropna :: "timestamp row list \<Rightarrow> timestamp row list" where
  "step5_dropna df =
     filter (\<lambda>r. Start_Date r \<noteq> None \<and> Celebrity_Birth r \<noteq> None \<and> Career_Start_Year r \<noteq> None) df"

definition step5_positive :: "timestamp \<Rightarrow> timestamp row list \<Rightarrow> timestamp row list" where
  "step5_positive today df =
     filter (\<lambda>r. nan_gt (in_years (days_between (fillna (End_Date r) today) (Start_Date r))) 0) df"

definition add_debut :: "timestamp \<Rightarrow> timestamp row \<Rightarrow> prow" where
  "add_debut today r =
     (let observed = fillna (End_Date r) today
      in row.extend r
           (prow.fields observed
              (in_years (days_between observed (Start_Date r)))
              (get_status r)
              (in_years (days_between (Career_Start_Year r) (Celebrity_Birth r)))))"

definition step5_debut :: "date_reader \<Rightarrow> timestamp \<Rightarrow> string row list \<Rightarrow> prow list" where
  "step5_debut reader today csv =
     map (add_debut today) (step5_positive today (step5_dropna (read_psycho reader csv)))"

text \<open>
  \<^verbatim>\<open>
  df = df[(df['Age_At_Debut'] > 0) & (df['Age_At_Debut'] < 80)]
  df['Is_Child_Star'] = np.where(df['Age_At_Debut'] < 16, 'Child Star', 'Adult Debut')
  df['Is_Child_Star_Binary'] = np.where(df['Age_At_Debut'] < 16, 1, 0)
  df['Children_Category'] = pd.cut(df['Children_Count'], bins=[-1, 0, 2, 20],
                                   labels=['No Kids', '1-2 Kids', '3+ Kids'])
  \<close>
\<close>

record qrow = prow +
  Is_Child_Star :: string
  Is_Child_Star_Binary :: int
  Children_Category :: "string option"

definition valid_debut :: "prow list \<Rightarrow> prow list" where
  "valid_debut df = filter (\<lambda>r. nan_gt (Age_At_Debut r) 0 \<and> nan_lt (Age_At_Debut r) 80) df"

definition children_category :: "int option \<Rightarrow> string option" where
  "children_category n =
     Option.bind n (pd_cut [-1, 0, 2, 20] [''No Kids'', ''1-2 Kids'', ''3+ Kids''])"

definition add_child_star :: "prow \<Rightarrow> qrow" where
  "add_child_star r =
     prow.extend r
       (qrow.fields
          (if nan_lt (Age_At_Debut r) 16 then ''Child Star'' else ''Adult Debut'')
          (if nan_lt (Age_At_Debut r) 16 then 1 else 0)
          (children_category (Children_Count r)))"

definition step5 :: "date_reader \<Rightarrow> timestamp \<Rightarrow> string row list \<Rightarrow> qrow list" where
  "step5 reader today csv = map add_child_star (valid_debut (step5_debut reader today csv))"

section \<open>The Kaplan-Meier estimator\<close>

text \<open>
  Modelled from the spec: the scripts call \<open>KaplanMeierFitter.fit\<close> and \<open>predict\<close> of the
  lifelines library, whose code is not part of the repository. The estimator below follows
  section 4.3 of the specification: the distinct event times in ascending order; at each of
  them the estimate is multiplied by \<open>1 - d / n\<close>, where \<open>d\<close> counts the events at that time
  and \<open>n\<close> the observations still at risk just before it (those whose duration is at least
  that time); the curve is a right-continuous step function that starts at 1.
\<close>

type_synonym observation = "real \<times> bool" \<comment> \<open>duration in years, event observed\<close>

definition event_times :: "observation list \<Rightarrow> real list" where
  "event_times obs = sort (remdups (map fst (filter snd obs)))"

definition d_t :: "observation list \<Rightarrow> real \<Rightarrow> nat" where
  "d_t obs t = length (filter (\<lambda>ob. snd ob \<and> fst ob = t) obs)"

definition n_t :: "observation list \<Rightarrow> real \<Rightarrow> nat" where
  "n_t obs t = length (filter (\<lambda>ob. t \<le> fst ob) obs)"

fun km_steps :: "observation list \<Rightarrow> real \<Rightarrow> real list \<Rightarrow> (real \<times> real) list" where
  "km_steps obs s [] = []"
| "km_steps obs s (t # ts) =
     (let s' = s * (1 - real (d_t obs t) / real (n_t obs t))
      in (t, s') # km_steps obs s' ts)"

definition km_fit :: "observation list \<Rightarrow> (real \<times> real) list" where
  "km_fit obs = km_steps obs 1 (event_times obs)"

fun step_at :: "real \<Rightarrow> (real \<times> real) list \<Rightarrow> real \<Rightarrow> real" where
  "step_at s [] t = s"
| "step_at s ((ti, si) # curve) t = (if ti \<le> t then step_at si curve t else s)"

definition km_predict :: "(real \<times> real) list \<Rightarrow> real \<Rightarrow> real" where
  "km_predict curve t = step_at 1 curve t"

section \<open>Example tables\<close>

text \<open>
  Small tables on which the definitions are evaluated: a CSV line without any cell, a date
  reader that reads the six dates of the examples (midnight UTC) in whatever column they
  stand and no other text, and a processing time, noon of 2025-01-01.
\<close>

definition no_cells :: "'d row" where
  "no_cells =
     \<lparr>Celebrity = None, Start_Date = None, End_Date = None, End_Cause = None,
      Celebrity_Birth = None, Spouse_Birth = None, Celebrity_Fame_Score = None,
      Spouse_Fame_Score = None, Career_Start_Year = None, Children_Count = None,
      Awards_Count = None\<rparr>"

definition iso_date :: date_reader where
  "iso_date col =
     map_of
       [(''1920-01-01'', - 1577923200000000000),
        (''1990-01-01'', 631152000000000000),
        (''2000-01-01'', 946684800000000000),
        (''2005-01-01'', 1104537600000000000),
        (''2010-01-01'', 1262304000000000000),
        (''2020-01-01'', 1577836800000000000)]"

definition noon_2025 :: timestamp where
  "noon_2025 = 1735732800000000000"

definition enriched_example :: "string row list" where
  "enriched_example =
     [no_cells\<lparr>Start_Date := Some ''unknown'', End_Date := Some ''2005-01-01''\<rparr>,
      no_cells\<lparr>Start_Date := Some ''2000-01-01'', End_Date := Some ''2005-01-01'',
        End_Cause := Some ''divorce'', Celebrity_Birth := Some ''1990-01-01'',
        Spouse_Birth := Some ''2000-01-01''\<rparr>,
      no_cells\<lparr>Start_Date := Some ''2005-01-01'', End_Date := Some ''2010-01-01'',
        End_Cause := Some ''divorce''\<rparr>,
      no_cells\<lparr>Start_Date := Some ''2000-01-01''\<rparr>,
      no_cells\<lparr>Start_Date := Some ''2005-01-01'', End_Date := Some ''2010-01-01'',
        End_Cause := Some ''death of spouse''\<rparr>,
      no_cells\<lparr>Start_Date := Some ''2000-01-01'', End_Date := Some ''2010-01-01'',
        End_Cause := Some ''Widowed''\<rparr>,
      no_cells\<lparr>Start_Date := Some ''2010-01-01'', End_Date := Some ''2005-01-01''\<rparr>,
      no_cells\<lparr>End_Date := Some ''2005-01-01''\<rparr>]"

definition wikidata_example :: "string row list" where
  "wikidata_example =
     [no_cells\<lparr>Start_Date := Some ''unknown'', End_Date := Some ''2005-01-01''\<rparr>,
      no_cells\<lparr>Start_Date := Some ''2010-01-01'', End_Date := Some ''2005-01-01''\<rparr>]"

definition outlier_example :: "string row list" where
  "outlier_example =
     [no_cells\<lparr>Start_Date := Some ''2020-01-01'', Celebrity_Birth := Some ''1920-01-01'',
        Spouse_Birth := Some ''2000-01-01''\<rparr>]"

definition psycho_example :: "string row list" where
  "psycho_example =
     [no_cells\<lparr>Start_Date := Some ''2010-01-01'', Celebrity_Birth := Some ''1990-01-01'',
        Career_Start_Year := Some ''2000-01-01'', Children_Count := Some 2\<rparr>,
      no_cells\<lparr>Start_Date := Some ''2005-01-01'', Celebrity_Birth := Some ''1920-01-01'',
        Career_Start_Year := Some ''2000-01-01'', Children_Count := Some 0\<rparr>]"

definition km_example :: "observation list" where
  "km_example = [(5, True), (9, False), (10, True), (10, False)]"

section \<open>Facts about strings\<close>

lemma py_in_sublist: "py_in needle hay \<longleftrightarrow> sublist needle hay"
  by (induction hay) (auto simp: sublist_Cons_right)

lemma py_in_lower_iff:
  "py_in (lower keyword) (lower s) \<longleftrightarrow> contains_ci keyword s"
proof
  assume "py_in (lower keyword) (lower s)"
  then obtain ps ss where "map lower_char s = ps @ map lower_char keyword @ ss"
    by (auto simp: py_in_sublist sublist_def lower_def)
  then have "\<exists>us vs. s = us @ vs \<and> ps = map lower_char us \<and>
      map lower_char keyword @ ss = map lower_char vs"
    by (simp add: map_eq_append_conv)
  then obtain pre rest where r: "s = pre @ rest"
      "map lower_char keyword @ ss = map lower_char rest"
    by blast
  from r(2) have "\<exists>us vs. rest = us @ vs \<and> map lower_char keyword = map lower_char us \<and>
      ss = map lower_char vs"
    by (simp add: append_eq_map_conv)
  then obtain mid post where "rest = mid @ post" "map lower_char mid = map lower_char keyword"
    by auto
  with r(1) show "contains_ci keyword s"
    by (auto simp: contains_ci_def lower_def)
next
  assume "contains_ci keyword s"
  then obtain pre mid post where "s = pre @ mid @ post" "lower mid = lower keyword"
    by (auto simp: contains_ci_def)
  then have "lower s = lower pre @ lower keyword @ lower post"
    by (simp add: lower_def)
  then show "py_in (lower keyword) (lower s)"
    by (auto simp: py_in_sublist sublist_def)
qed

lemma lower_death: "lower ''death'' = ''death''"
  by (simp add: lower_def lower_char_def)

lemma lower_widow: "lower ''widow'' = ''widow''"
  by (simp add: lower_def lower_char_def)

lemma py_in_death_iff: "py_in ''death'' (lower s) \<longleftrightarrow> contains_ci ''death'' s"
  using py_in_lower_iff [of "''death''" s] by (simp only: lower_death)

lemma py_in_widow_iff: "py_in ''widow'' (lower s) \<longleftrightarrow> contains_ci ''widow'' s"
  using py_in_lower_iff [of "''widow''" s] by (simp only: lower_widow)

lemma nan_no_death: "\<not> py_in ''death'' (lower (py_str None))"
  by (simp add: py_str_def lower_def lower_char_def)

lemma nan_no_widow: "\<not> py_in ''widow'' (lower (py_str None))"
  by (simp add: py_str_def lower_def lower_char_def)

lemma get_event_status_range: "get_event_status r = 0 \<or> get_event_status r = 1"
  by (simp add: get_event_status_def Let_def)

section \<open>Evaluation on the example tables\<close>

lemmas cell_defs =
  to_datetime_cell_def fillna_def days_between_def ns_per_day_def in_years_def
  nan_gt_def nan_lt_def nan_le_def abs_diff_def

lemmas text_defs = py_str_def lower_def lower_char_def

lemmas example_defs =
  no_cells_def iso_date_def noon_2025_def enriched_example_def wikidata_example_def
  outlier_example_def psycho_example_def km_example_def

lemmas normalize_defs =
  normalize_def dropna_Start_Date_def read_enriched_def add_durations_def Let_def
  row.defs drow.defs

section \<open>The event indicator\<close>

text \<open>
  Claim C1. The event indicator of analysis.py and step2_analysis.py is the classification of
  the specification: 0 when the end date is missing; otherwise 0 when the end-cause text
  contains \<open>death\<close> or \<open>widow\<close> under case-insensitive substring match; otherwise 1.
\<close>

theorem get_event_status_classifies:
  "get_event_status r = classify_event (End_Date r \<noteq> None) (End_Cause r)"
proof (cases "End_Cause r")
  case None
  then show ?thesis
    using nan_no_death nan_no_widow
    by (simp add: get_event_status_def classify_event_def)
next
  case (Some s)
  then show ?thesis
    by (simp add: get_event_status_def classify_event_def py_str_def
        py_in_death_iff py_in_widow_iff)
qed

text \<open>
  The three rows of the scenario of the specification (a divorce, an ongoing marriage, a
  death of the spouse), and a cause written with capitals.
\<close>

theorem get_event_status_classifies_witness:
  "classify_event True (Some ''divorce'') = 1 \<and>
   classify_event False None = 0 \<and>
   classify_event True (Some ''death of spouse'') = 0 \<and>
   classify_event True (Some ''Widowhood'') = 0"
  using
    get_event_status_classifies
      [of "(no_cells :: timestamp row)\<lparr>End_Date := Some 0, End_Cause := Some ''divorce''\<rparr>"]
    get_event_status_classifies [of "no_cells :: timestamp row"]
    get_event_status_classifies
      [of "(no_cells :: timestamp row)\<lparr>End_Date := Some 0, End_Cause := Some ''death of spouse''\<rparr>"]
    get_event_status_classifies
      [of "(no_cells :: timestamp row)\<lparr>End_Date := Some 0, End_Cause := Some ''Widowhood''\<rparr>"]
  by (simp add: get_event_status_def no_cells_def text_defs)

text \<open>
  Claim C2. The classifiers of the scripts are not the same function: \<open>get_status\<close> of
  step3, step5 and step7 looks for \<open>death\<close> only, so a marriage that ended by widowhood
  is censored (0) by \<open>get_event_status\<close> and an observed divorce (1) by \<open>get_status\<close>.
\<close>

theorem classifiers_differ_on_widowhood:
  "get_event_status ((no_cells :: timestamp row)
      \<lparr>Start_Date := Some 946684800000000000, End_Date := Some 1262304000000000000,
       End_Cause := Some ''Widowed''\<rparr>) = 0 \<and>
   get_status ((no_cells :: timestamp row)
      \<lparr>Start_Date := Some 946684800000000000, End_Date := Some 1262304000000000000,
       End_Cause := Some ''Widowed''\<rparr>) = 1"
  by (simp add: get_event_status_def get_status_def no_cells_def text_defs)

text \<open>
  Claim C10. A record with an end date and no end-cause text is classified as an observed
  event (1), by \<open>get_event_status\<close> and by \<open>get_status\<close> alike: the missing cause is turned
  into the text \<open>nan\<close>, which holds no keyword.
\<close>

theorem missing_cause_is_event:
  "End_Date r \<noteq> None \<Longrightarrow> End_Cause r = None \<Longrightarrow> get_event_status r = 1 \<and> get_status r = 1"
  using nan_no_death nan_no_widow
  by (simp add: get_event_status_def get_status_def)

theorem missing_cause_is_event_witness:
  "End_Date ((no_cells :: timestamp row)\<lparr>End_Date := Some 1262304000000000000\<rparr>) \<noteq> None \<and>
   End_Cause ((no_cells :: timestamp row)\<lparr>End_Date := Some 1262304000000000000\<rparr>) = None \<and>
   get_event_status ((no_cells :: timestamp row)\<lparr>End_Date := Some 1262304000000000000\<rparr>) = 1 \<and>
   get_status ((no_cells :: timestamp row)\<lparr>End_Date := Some 1262304000000000000\<rparr>) = 1"
  using missing_cause_is_event
    [of "(no_cells :: timestamp row)\<lparr>End_Date := Some 1262304000000000000\<rparr>"]
  by (simp add: no_cells_def)

section \<open>Normalization\<close>

lemma add_durations_simps:
  "Start_Date (add_durations today r) = Start_Date r"
  "End_Date (add_durations today r) = End_Date r"
  "End_Cause (add_durations today r) = End_Cause r"
  "Duration_Days (add_durations today r) = days_between (fillna (End_Date r) today) (Start_Date r)"
  "drow.Duration_Years (add_durations today r) =
     in_years (days_between (fillna (End_Date r) today) (Start_Date r))"
  "row.truncate (add_durations today r) = r"
  by (simp_all add: add_durations_def Let_def row.defs drow.defs)

text \<open>The start dates of the table that analysis.py works on are the converted column.\<close>

lemma read_enriched_Start_Date:
  "map Start_Date (read_enriched reader csv) = to_datetime reader (map Start_Date csv)"
  by (simp add: read_enriched_def to_datetime_def)

lemma normalize_rows:
  assumes "r \<in> set (normalize reader today csv)"
  shows "row.truncate r \<in> set (read_enriched reader csv)"
    and "\<exists>s n. Start_Date r = Some s \<and> Duration_Days r = Some n \<and> 0 < n \<and>
           drow.Duration_Years r = Some (real_of_int n / 365.25)"
proof -
  from assms obtain b where b: "b \<in> set (read_enriched reader csv)" "Start_Date b \<noteq> None"
    "r = add_durations today b" "nan_gt (Duration_Days r) 0"
    by (auto simp: normalize_def dropna_Start_Date_def)
  from b(1,3) show "row.truncate r \<in> set (read_enriched reader csv)"
    by (simp add: add_durations_simps)
  from b(4) obtain n where n: "Duration_Days r = Some n" "0 < n"
    by (auto simp: nan_gt_def split: option.splits)
  from b(3) have "drow.Duration_Years r = in_years (Duration_Days r)"
    by (simp add: add_durations_simps)
  with n b show "\<exists>s n. Start_Date r = Some s \<and> Duration_Days r = Some n \<and> 0 < n \<and>
           drow.Duration_Years r = Some (real_of_int n / 365.25)"
    by (auto simp: in_years_def add_durations_simps)
qed

lemma normalize_drops_missing_start:
  assumes "b \<in> set (read_enriched reader csv)" and "Start_Date b = None"
  shows "b \<notin> row.truncate ` set (normalize reader today csv)"
proof
  assume "b \<in> row.truncate ` set (normalize reader today csv)"
  then obtain x where "Start_Date x \<noteq> None" "b = row.truncate (add_durations today x)"
    by (auto simp: normalize_def dropna_Start_Date_def)
  with assms(2) show False
    by (simp add: add_durations_simps)
qed

lemma data_check_rows:
  assumes "r \<in> set (data_check reader today csv)"
  shows "drow.Duration_Years r = map_option (\<lambda>n. real_of_int n / 365.25) (Duration_Days r)"
  using assms
  by (auto simp: data_check_def add_Status_def add_durations_def Let_def in_years_def
      row.defs drow.defs krow.defs)

text \<open>
  Claim C3, as amended. In analysis.py and step2_analysis.py the start dates of the table are
  those that \<open>pd.to_datetime\<close> makes of the column; every row that normalization retains
  is a row of that table with a start date, a positive \<open>Duration_Days\<close> and
  \<open>Duration_Years = Duration_Days / 365.25\<close>; and no row whose start date is missing or
  was not read is among the normalized rows. data_check.py computes \<open>Duration_Years\<close> by
  the same formula and drops no row.
\<close>

theorem normalize_keeps_valid_rows:
  "map Start_Date (read_enriched reader csv) = to_datetime reader (map Start_Date csv) \<and>
   (\<forall>r \<in> set (normalize reader today csv).
      row.truncate r \<in> set (read_enriched reader csv) \<and>
      (\<exists>s n. Start_Date r = Some s \<and> Duration_Days r = Some n \<and> 0 < n \<and>
            drow.Duration_Years r = Some (real_of_int n / 365.25))) \<and>
   (\<forall>b \<in> set (read_enriched reader csv).
      Start_Date b = None \<longrightarrow> b \<notin> row.truncate ` set (normalize reader today csv)) \<and>
   (\<forall>r \<in> set (data_check reader today csv).
      drow.Duration_Years r = map_option (\<lambda>n. real_of_int n / 365.25) (Duration_Days r)) \<and>
   length (data_check reader today csv) = length csv"
proof (intro conjI ballI impI)
  show "map Start_Date (read_enriched reader csv) = to_datetime reader (map Start_Date csv)"
    by (rule read_enriched_Start_Date)
next
  fix r assume "r \<in> set (normalize reader today csv)"
  then show "row.truncate r \<in> set (read_enriched reader csv)"
    by (rule normalize_rows(1))
next
  fix r assume "r \<in> set (normalize reader today csv)"
  then show "\<exists>s n. Start_Date r = Some s \<and> Duration_Days r = Some n \<and> 0 < n \<and>
            drow.Duration_Years r = Some (real_of_int n / 365.25)"
    by (rule normalize_rows(2))
next
  fix b assume "b \<in> set (read_enriched reader csv)" "Start_Date b = None"
  then show "b \<notin> row.truncate ` set (normalize reader today csv)"
    by (rule normalize_drops_missing_start)
next
  fix r assume "r \<in> set (data_check reader today csv)"
  then show "drow.Duration_Years r = map_option (\<lambda>n. real_of_int n / 365.25) (Duration_Days r)"
    by (rule data_check_rows)
next
  show "length (data_check reader today csv) = length csv"
    by (simp add: data_check_def read_wikidata_def)
qed

text \<open>
  Of the eight lines of the example, two have no start date after the conversion (one
  text is not a date, one cell is missing) and one ends before it starts; normalization
  retains the other five.
\<close>

theorem normalize_keeps_valid_rows_witness:
  "map Start_Date (read_enriched iso_date enriched_example) =
     [None, Some 946684800000000000, Some 1104537600000000000, Some 946684800000000000,
      Some 1104537600000000000, Some 946684800000000000, Some 1262304000000000000, None] \<and>
   map (\<lambda>r. (Start_Date r, Duration_Days r, drow.Duration_Years r))
     (normalize iso_date noon_2025 enriched_example) =
   [(Some 946684800000000000, Some 1827, Some (1827 / 365.25)),
    (Some 1104537600000000000, Some 1826, Some (1826 / 365.25)),
    (Some 946684800000000000, Some 9132, Some (9132 / 365.25)),
    (Some 1104537600000000000, Some 1826, Some (1826 / 365.25)),
    (Some 946684800000000000, Some 3653, Some (3653 / 365.25))] \<and>
   length (data_check iso_date noon_2025 enriched_example) = 8"
  (is ?eval)
proof -
  have "?eval"
    by (simp add: normalize_defs data_check_def read_wikidata_def cell_defs example_defs)
  with normalize_keeps_valid_rows [of iso_date enriched_example noon_2025]
  show ?thesis by blast
qed

text \<open>
  The claim as stated fails in data_check.py: the table it reports on keeps a row whose
  start date is unreadable, with a missing duration, and a row that ends before it starts,
  with a negative \<open>Duration_Days\<close>; both are counted and the second decides the median.
\<close>

theorem data_check_keeps_invalid_rows:
  "map (\<lambda>r. (Start_Date r, Duration_Days r, drow.Duration_Years r))
     (data_check iso_date noon_2025 wikidata_example) =
   [(None, None, None),
    (Some 1262304000000000000, Some (- 1826), Some (- 1826 / 365.25))] \<and>
   total_records (data_check iso_date noon_2025 wikidata_example) = 2 \<and>
   avg_duration (data_check iso_date noon_2025 wikidata_example) = Some (- 1826 / 365.25)"
  by (simp add: data_check_def read_wikidata_def add_Status_def add_durations_def Let_def
      total_records_def avg_duration_def median_def present_def
      cell_defs example_defs row.defs drow.defs krow.defs)

section \<open>Age-gap outliers in analysis.py\<close>

lemma add_Age_Gap_Bin_simps:
  "arow.Age_Gap (add_Age_Gap_Bin r) = arow.Age_Gap r"
  by (simp add: add_Age_Gap_Bin_def arow.defs crow.defs)

lemma df_clean_rows:
  assumes "c \<in> set (df_clean df)"
  shows "\<exists>g. arow.Age_Gap c = Some g \<and> g < 60"
  using assms
  by (auto simp: df_clean_def add_Age_Gap_Bin_simps nan_lt_def split: option.splits)

lemma df_clean_ignores_outliers:
  "df_clean (filter (\<lambda>r. \<exists>g. arow.Age_Gap r = Some g \<and> g < 60) df) = df_clean df"
proof -
  have "filter (\<lambda>r. nan_lt (arow.Age_Gap r) 60)
          (filter (\<lambda>r. arow.Age_Gap r \<noteq> None)
             (filter (\<lambda>r. \<exists>g. arow.Age_Gap r = Some g \<and> g < 60) df)) =
        filter (\<lambda>r. nan_lt (arow.Age_Gap r) 60) (filter (\<lambda>r. arow.Age_Gap r \<noteq> None) df)"
    unfolding filter_filter by (rule filter_cong) (auto simp: nan_lt_def)
  then show ?thesis
    by (simp only: df_clean_def)
qed

lemmas analysis_defs =
  analysis_def add_features_def df_clean_def add_Age_Gap_Bin_def bins_def labels_def
  arow.defs crow.defs

text \<open>
  Claim C5, as amended. Every record whose age gap is 60 years or more, or missing, is left
  out of \<open>df_clean\<close>, and analysis.py computes the age-gap-stratified statistics and the
  statistics by spouse type from \<open>df_clean\<close> alike: every row they aggregate has an age gap
  below 60, and both tables are what they would be without such records in the input.
\<close>

theorem outliers_excluded_from_all_statistics:
  "(\<forall>c \<in> set (df_clean df). \<exists>g. arow.Age_Gap c = Some g \<and> g < 60) \<and>
   age_gap_stats (df_clean (filter (\<lambda>r. \<exists>g. arow.Age_Gap r = Some g \<and> g < 60) df)) =
     age_gap_stats (df_clean df) \<and>
   fame_stats (df_clean (filter (\<lambda>r. \<exists>g. arow.Age_Gap r = Some g \<and> g < 60) df)) =
     fame_stats (df_clean df)"
proof (intro conjI ballI)
  fix c assume "c \<in> set (df_clean df)"
  then show "\<exists>g. arow.Age_Gap c = Some g \<and> g < 60"
    by (rule df_clean_rows)
next
  show "age_gap_stats (df_clean (filter (\<lambda>r. \<exists>g. arow.Age_Gap r = Some g \<and> g < 60) df)) =
     age_gap_stats (df_clean df)"
    by (simp only: df_clean_ignores_outliers)
next
  show "fame_stats (df_clean (filter (\<lambda>r. \<exists>g. arow.Age_Gap r = Some g \<and> g < 60) df)) =
     fame_stats (df_clean df)"
    by (simp only: df_clean_ignores_outliers)
qed

text \<open>
  Of the five normalized rows of the example only one has both birth dates; its age gap is
  3652 days, just under ten years, and it is the one row of the statistics.
\<close>

theorem outliers_excluded_from_all_statistics_witness:
  "map (\<lambda>c. (arow.Age_Gap c, Age_Gap_Bin c))
     (df_clean (analysis iso_date noon_2025 enriched_example)) =
     [(Some (3652 / 365.25), Some ''5-10 Years'')] \<and>
   fame_stats (df_clean (analysis iso_date noon_2025 enriched_example)) =
     [(''Non-Famous Spouse'',
       \<lparr>Total_Marriages = 1, Divorce_Rate = Some 1, Median_Duration = Some (1827 / 365.25)\<rparr>)]"
  (is ?eval)
proof -
  have "?eval"
    by (simp add: analysis_defs normalize_defs fame_stats_def agg_def mean_def median_def
        present_def get_event_status_def text_defs cell_defs example_defs del: not_None_eq)
  with outliers_excluded_from_all_statistics [of "analysis iso_date noon_2025 enriched_example"]
  show ?thesis by blast
qed

text \<open>
  The claim as stated fails for the statistics by spouse type: a record with an age gap of
  80 years is a normalized record of \<open>df\<close>, and \<open>fame_stats\<close>, which is not stratified by
  age gap, has no line that counts it.
\<close>

theorem outlier_missing_from_fame_stats:
  "map (\<lambda>r. (arow.Age_Gap r, Spouse_Type r)) (analysis iso_date noon_2025 outlier_example) =
     [(Some 80, ''Non-Famous Spouse'')] \<and>
   fame_stats (df_clean (analysis iso_date noon_2025 outlier_example)) = []"
  by (simp add: analysis_defs normalize_defs fame_stats_def cell_defs example_defs)

section \<open>The training set of the logistic regression\<close>

lemma step2_features_simps:
  "srow.Event_Divorce (step2_features r) = get_event_status r"
  "drow.Duration_Years (step2_features r) = drow.Duration_Years r"
  by (simp_all add: step2_features_def Let_def drow.defs srow.defs)

lemma add_Target_simps:
  "srow.Event_Divorce (add_Target r) = srow.Event_Divorce r"
  "drow.Duration_Years (add_Target r) = drow.Duration_Years r"
  "Target_Short_Marriage (add_Target r) = (if nan_le (drow.Duration_Years r) 5 then 1 else 0)"
  "srow.truncate (add_Target r) = r"
  by (simp_all add: add_Target_def srow.defs mrow.defs)

lemma step2_rows:
  assumes "r \<in> set (step2 reader today csv)"
  shows "\<exists>d. drow.Duration_Years r = Some d \<and> 0 < d"
    and "srow.Event_Divorce r = 0 \<or> srow.Event_Divorce r = 1"
proof -
  from assms obtain b where b: "b \<in> set (normalize reader today csv)" "r = step2_features b"
    by (auto simp: step2_def)
  from normalize_rows(2) [OF b(1)] b(2) show "\<exists>d. drow.Duration_Years r = Some d \<and> 0 < d"
    by (auto simp: step2_features_simps)
  from b(2) show "srow.Event_Divorce r = 0 \<or> srow.Event_Divorce r = 1"
    using get_event_status_range [of b] by (simp add: step2_features_simps)
qed

text \<open>
  Claim C6. Every row of the training set of step2_analysis.py is an observed event or a
  censored observation that lasted more than 5 years, its target is 1 exactly when its
  duration is at most 5 years, and no row censored at or before 5 years is in the training
  set.
\<close>

theorem model_data_training_set:
  "(\<forall>m \<in> set (model_data (step2 reader today csv)).
      \<exists>d. drow.Duration_Years m = Some d \<and>
          (srow.Event_Divorce m = 1 \<or> (srow.Event_Divorce m = 0 \<and> 5 < d)) \<and>
          Target_Short_Marriage m = (if d \<le> 5 then 1 else 0)) \<and>
   (\<forall>r \<in> set (step2 reader today csv).
      srow.Event_Divorce r = 0 \<and> (\<exists>d. drow.Duration_Years r = Some d \<and> d \<le> 5) \<longrightarrow>
      r \<notin> srow.truncate ` set (model_data (step2 reader today csv)))"
proof (intro conjI ballI impI)
  fix m assume "m \<in> set (model_data (step2 reader today csv))"
  then obtain r where r: "r \<in> set (step2 reader today csv)" "m = add_Target r"
    "srow.Event_Divorce r = 1 \<or> nan_gt (drow.Duration_Years r) 5"
    by (auto simp: model_data_def model_rows_def)
  from step2_rows [OF r(1)] obtain d where d: "drow.Duration_Years r = Some d"
    and ev: "srow.Event_Divorce r = 0 \<or> srow.Event_Divorce r = 1"
    by blast
  from r(3) ev d have "srow.Event_Divorce r = 1 \<or> (srow.Event_Divorce r = 0 \<and> 5 < d)"
    by (auto simp: nan_gt_def)
  with d r(2) show "\<exists>d. drow.Duration_Years m = Some d \<and>
          (srow.Event_Divorce m = 1 \<or> (srow.Event_Divorce m = 0 \<and> 5 < d)) \<and>
          Target_Short_Marriage m = (if d \<le> 5 then 1 else 0)"
    by (simp add: add_Target_simps nan_le_def)
next
  fix r assume "r \<in> set (step2 reader today csv)"
    and c: "srow.Event_Divorce r = 0 \<and> (\<exists>d. drow.Duration_Years r = Some d \<and> d \<le> 5)"
  show "r \<notin> srow.truncate ` set (model_data (step2 reader today csv))"
  proof
    assume "r \<in> srow.truncate ` set (model_data (step2 reader today csv))"
    then have "r \<in> set (model_rows (step2 reader today csv))"
      by (auto simp: model_data_def add_Target_simps)
    with c show False
      by (auto simp: model_rows_def nan_gt_def)
  qed
qed

text \<open>
  The example has two divorces (one after 1827 days, one after 1826), an ongoing marriage
  of 25 years, a marriage ended by death after 1826 days and one ended by widowhood after
  ten years. The fourth is censored before 5 years and is not in the training set.
\<close>

theorem model_data_training_set_witness:
  "map (\<lambda>r. (srow.Event_Divorce r, drow.Duration_Years r))
     (step2 iso_date noon_2025 enriched_example) =
     [(1, Some (1827 / 365.25)), (1, Some (1826 / 365.25)), (0, Some (9132 / 365.25)),
      (0, Some (1826 / 365.25)), (0, Some (3653 / 365.25))] \<and>
   map (\<lambda>m. (srow.Event_Divorce m, drow.Duration_Years m, Target_Short_Marriage m))
     (model_data (step2 iso_date noon_2025 enriched_example)) =
     [(1, Some (1827 / 365.25), 0), (1, Some (1826 / 365.25), 1),
      (0, Some (9132 / 365.25), 0), (0, Some (3653 / 365.25), 0)]"
  (is ?eval)
proof -
  have "?eval"
    by (simp add: model_data_def model_rows_def add_Target_def step2_def step2_features_def
        srow.defs mrow.defs normalize_defs get_event_status_def text_defs cell_defs example_defs)
  with model_data_training_set [of iso_date noon_2025 enriched_example]
  show ?thesis by blast
qed

section \<open>Child stars and children buckets in step5\<close>

lemma add_debut_simps:
  "Celebrity_Birth (add_debut today r) = Celebrity_Birth r"
  "Career_Start_Year (add_debut today r) = Career_Start_Year r"
  "Age_At_Debut (add_debut today r) =
     in_years (days_between (Career_Start_Year r) (Celebrity_Birth r))"
  by (simp_all add: add_debut_def Let_def row.defs prow.defs)

lemma add_child_star_simps:
  "Age_At_Debut (add_child_star r) = Age_At_Debut r"
  "Is_Child_Star (add_child_star r) =
     (if nan_lt (Age_At_Debut r) 16 then ''Child Star'' else ''Adult Debut'')"
  "Is_Child_Star_Binary (add_child_star r) = (if nan_lt (Age_At_Debut r) 16 then 1 else 0)"
  by (simp_all add: add_child_star_def prow.defs qrow.defs)

lemma valid_debut_iff:
  "r \<in> set (valid_debut df) \<longleftrightarrow>
     r \<in> set df \<and> (\<exists>a. Age_At_Debut r = Some a \<and> 0 < a \<and> a < 80)"
  by (auto simp: valid_debut_def nan_gt_def nan_lt_def split: option.splits)

lemma step5_debut_rows:
  assumes "r \<in> set (step5_debut reader today csv)"
  shows "\<exists>b c. Celebrity_Birth r = Some b \<and> Career_Start_Year r = Some c \<and>
           Age_At_Debut r = Some (real_of_int ((c - b) div ns_per_day) / 365.25)"
proof -
  from assms obtain x where x: "r = add_debut today x" "Celebrity_Birth x \<noteq> None"
    "Career_Start_Year x \<noteq> None"
    by (auto simp: step5_debut_def step5_positive_def step5_dropna_def)
  then show ?thesis
    by (auto simp: add_debut_simps in_years_def days_between_def)
qed

lemmas step5_defs =
  step5_def step5_debut_def step5_positive_def step5_dropna_def valid_debut_def
  read_psycho_def add_debut_def add_child_star_def children_category_def Let_def
  row.defs prow.defs qrow.defs

text \<open>
  Claim C7, as amended. In step5 the age at career start of a normalized record is the
  number of whole days from the birth date to the career start date, divided by 365.25; the
  record is kept for the child-star analysis exactly when that age is greater than 0 and
  less than 80, so an age of 0 or less and an age of 80 or more exclude it; and every kept
  record is a child star exactly when its age is below 16.
\<close>

theorem child_star_table:
  "(\<forall>r \<in> set (step5_debut reader today csv).
      (\<exists>b c. Celebrity_Birth r = Some b \<and> Career_Start_Year r = Some c \<and>
         Age_At_Debut r = Some (real_of_int ((c - b) div ns_per_day) / 365.25)) \<and>
      (r \<in> set (valid_debut (step5_debut reader today csv)) \<longleftrightarrow>
         (\<exists>a. Age_At_Debut r = Some a \<and> 0 < a \<and> a < 80))) \<and>
   (\<forall>q \<in> set (step5 reader today csv).
      \<exists>a. Age_At_Debut q = Some a \<and> 0 < a \<and> a < 80 \<and>
          Is_Child_Star q = (if a < 16 then ''Child Star'' else ''Adult Debut'') \<and>
          Is_Child_Star_Binary q = (if a < 16 then 1 else 0))"
proof (intro conjI ballI)
  fix r assume "r \<in> set (step5_debut reader today csv)"
  then show "\<exists>b c. Celebrity_Birth r = Some b \<and> Career_Start_Year r = Some c \<and>
         Age_At_Debut r = Some (real_of_int ((c - b) div ns_per_day) / 365.25)"
    by (rule step5_debut_rows)
next
  fix r assume "r \<in> set (step5_debut reader today csv)"
  then show "r \<in> set (valid_debut (step5_debut reader today csv)) \<longleftrightarrow>
         (\<exists>a. Age_At_Debut r = Some a \<and> 0 < a \<and> a < 80)"
    by (simp add: valid_debut_iff)
next
  fix q assume "q \<in> set (step5 reader today csv)"
  then obtain r where r: "q = add_child_star r"
    "r \<in> set (valid_debut (step5_debut reader today csv))"
    by (auto simp: step5_def)
  from r(2) obtain a where "Age_At_Debut r = Some a" "0 < a" "a < 80"
    by (auto simp: valid_debut_iff)
  with r(1) show "\<exists>a. Age_At_Debut q = Some a \<and> 0 < a \<and> a < 80 \<and>
          Is_Child_Star q = (if a < 16 then ''Child Star'' else ''Adult Debut'') \<and>
          Is_Child_Star_Binary q = (if a < 16 then 1 else 0)"
    by (simp add: add_child_star_simps nan_lt_def)
qed

text \<open>
  The first line of the example starts a career 3652 days after birth, just under ten
  years, and is a child star.
\<close>

theorem child_star_table_witness:
  "map (\<lambda>q. (Age_At_Debut q, Is_Child_Star q, Is_Child_Star_Binary q))
     (step5 iso_date noon_2025 psycho_example) =
   [(Some (3652 / 365.25), ''Child Star'', 1)]"
  (is ?eval)
proof -
  have "?eval"
    by (simp add: step5_defs cell_defs example_defs)
  with child_star_table [of iso_date noon_2025 psycho_example]
  show ?thesis by blast
qed

text \<open>
  The claim as stated fails at the bounds: the second line of the example starts a career
  29220 days after birth, an age of exactly 80, which is neither negative nor greater than
  80, and the record is excluded.
\<close>

theorem age_of_80_is_excluded:
  "map Age_At_Debut (step5_debut iso_date noon_2025 psycho_example) =
     [Some (3652 / 365.25), Some 80] \<and>
   map Age_At_Debut (step5 iso_date noon_2025 psycho_example) = [Some (3652 / 365.25)]"
  by (simp add: step5_defs cell_defs example_defs)

text \<open>
  What \<open>Children_Category\<close> does: a count of 0 is \<open>No Kids\<close>, 1 and 2 are \<open>1-2 Kids\<close>, 3
  up to 20 are \<open>3+ Kids\<close>; a count above 20, a negative count and a missing count get no
  category.
\<close>

lemma children_category_bins:
  "children_category (Some n) =
     (if n = 0 then Some ''No Kids''
      else if 1 \<le> n \<and> n \<le> 2 then Some ''1-2 Kids''
      else if 3 \<le> n \<and> n \<le> 20 then Some ''3+ Kids''
      else None) \<and>
   children_category None = None"
  by (auto simp add: children_category_def)

text \<open>
  Claim C8. The binning is meant to be total, with every count of 3 or more in the bucket
  that the code itself calls \<open>3+ Kids\<close>; the last bin edge of the code is 20, so the bucket
  ends there: 20 children are \<open>3+ Kids\<close> and 21 children get no category at all.
\<close>

theorem children_category_of_21:
  "children_category (Some 20) = Some ''3+ Kids'' \<and> children_category (Some 21) = None"
  by (simp add: children_category_def)

section \<open>The Kaplan-Meier curve\<close>

lemma d_le_n: "d_t obs t \<le> n_t obs t"
proof -
  have "length (filter (\<lambda>ob. snd ob \<and> fst ob = t) obs) \<le>
        length (filter (\<lambda>ob. t \<le> fst ob) obs)"
    by (induction obs) auto
  then show ?thesis by (simp add: d_t_def n_t_def)
qed

text \<open>At an event time somebody is at risk: the estimator never divides by zero.\<close>

lemma at_risk_at_event_times:
  assumes "t \<in> set (event_times obs)"
  shows "0 < d_t obs t \<and> 0 < n_t obs t"
proof -
  from assms obtain ob where "ob \<in> set obs" "snd ob" "fst ob = t"
    by (auto simp: event_times_def)
  then have "filter (\<lambda>ob. snd ob \<and> fst ob = t) obs \<noteq> []"
    by (auto simp: filter_empty_conv)
  then have "0 < d_t obs t" by (simp add: d_t_def)
  with d_le_n [of obs t] show ?thesis by simp
qed

lemma factor_bounds:
  "0 \<le> 1 - real (d_t obs t) / real (n_t obs t) \<and>
   1 - real (d_t obs t) / real (n_t obs t) \<le> 1"
proof (cases "n_t obs t = 0")
  case True
  then show ?thesis by simp
next
  case False
  with d_le_n [of obs t] have "real (d_t obs t) / real (n_t obs t) \<le> 1"
    by simp
  then show ?thesis by simp
qed

lemma step_at_bounds:
  "0 \<le> s \<Longrightarrow> 0 \<le> step_at s (km_steps obs s ts) t \<and> step_at s (km_steps obs s ts) t \<le> s"
proof (induction ts arbitrary: s)
  case Nil
  then show ?case by simp
next
  case (Cons u ts)
  let ?f = "1 - real (d_t obs u) / real (n_t obs u)"
  have f: "0 \<le> ?f" "?f \<le> 1" using factor_bounds [of obs u] by simp_all
  with Cons.prems have s': "0 \<le> s * ?f" "s * ?f \<le> s"
    by (simp_all add: mult_left_le)
  from Cons.IH [OF s'(1)] s' show ?case
    by (auto simp: Let_def)
qed

lemma step_at_mono:
  "0 \<le> s \<Longrightarrow> t \<le> t' \<Longrightarrow>
   step_at s (km_steps obs s ts) t' \<le> step_at s (km_steps obs s ts) t"
proof (induction ts arbitrary: s)
  case Nil
  then show ?case by simp
next
  case (Cons u ts)
  let ?f = "1 - real (d_t obs u) / real (n_t obs u)"
  have f: "0 \<le> ?f" "?f \<le> 1" using factor_bounds [of obs u] by simp_all
  with Cons.prems have s': "0 \<le> s * ?f" "s * ?f \<le> s"
    by (simp_all add: mult_left_le)
  from step_at_bounds [OF s'(1), of obs ts t'] s'
  have "step_at (s * ?f) (km_steps obs (s * ?f) ts) t' \<le> s" by simp
  with Cons.IH [OF s'(1) Cons.prems(2)] Cons.prems(2) show ?case
    by (auto simp: Let_def)
qed

lemma step_at_before_first:
  "\<forall>u \<in> set ts. t < u \<Longrightarrow> step_at s (km_steps obs s ts) t = s"
  by (cases ts) (auto simp: Let_def)

lemmas km_defs = km_predict_def km_fit_def event_times_def d_t_def n_t_def

text \<open>
  Claim C4. For every list of observations with positive durations, as the observation
  windows of the data model are and as normalization leaves them, the fitted Kaplan-Meier
  curve is non-increasing in time, lies between 0 and 1 at every time, and is exactly 1 at
  time 0.
\<close>

theorem km_survival_curve:
  assumes "\<forall>ob \<in> set obs. 0 < fst ob"
  shows "(t \<le> t' \<longrightarrow> km_predict (km_fit obs) t' \<le> km_predict (km_fit obs) t) \<and>
    0 \<le> km_predict (km_fit obs) t \<and> km_predict (km_fit obs) t \<le> 1 \<and>
    km_predict (km_fit obs) 0 = 1"
proof (intro conjI impI)
  assume "t \<le> t'"
  then show "km_predict (km_fit obs) t' \<le> km_predict (km_fit obs) t"
    using step_at_mono [of 1 t t' obs "event_times obs"]
    by (simp add: km_predict_def km_fit_def)
next
  show "0 \<le> km_predict (km_fit obs) t" "km_predict (km_fit obs) t \<le> 1"
    using step_at_bounds [of 1 obs "event_times obs" t]
    by (simp_all add: km_predict_def km_fit_def)
next
  from assms have "\<forall>u \<in> set (event_times obs). 0 < u"
    by (auto simp: event_times_def)
  then show "km_predict (km_fit obs) 0 = 1"
    by (simp add: km_predict_def km_fit_def step_at_before_first)
qed

text \<open>
  Four observations: an event at 5 years with four at risk, a censoring at 9, an event and a
  censoring at 10 with two at risk. The curve steps from 1 to 3/4 to 3/8.
\<close>

theorem km_survival_curve_witness:
  "list_all (\<lambda>ob. 0 < fst ob) km_example \<and>
   km_fit km_example = [(5, 3 / 4), (10, 3 / 8)] \<and>
   map (km_predict (km_fit km_example)) [0, 5, 7, 10, 50] = [1, 3 / 4, 3 / 4, 3 / 8, 3 / 8] \<and>
   (5 :: real) \<le> 10 \<and>
   km_predict (km_fit km_example) 10 \<le> km_predict (km_fit km_example) 5 \<and>
   km_predict (km_fit km_example) 0 = 1"
  (is ?eval)
proof -
  have pos: "\<forall>ob \<in> set km_example. 0 < fst ob"
    by (simp add: km_example_def)
  have "?eval"
    by (simp add: km_defs km_example_def)
  with km_survival_curve [OF pos, of 5 10]
  show ?thesis by blast
qed

end
